theory Spec2Isabelle
  imports Complex_Main "HOL-Library.Char_ord" "HOL-Library.List_Lexorder"
begin

unbundle bit_operations_syntax

section \<open>Python values and errors\<close>

text \<open>
  The exceptions the class can raise: \<open>IndexError\<close> (raised explicitly by the accessors and
  by list indexing out of range) and \<open>TypeError\<close> (raised by \<open>hashlib.sha256\<close> when it is
  given a \<open>str\<close> instead of bytes).
\<close>

datatype error = IndexError | TypeError

text \<open>
  Python text is modelled as \<open>string\<close>: a list of code points below 256. Digests are
  hexadecimal text, so every string the tree stores is in this range.

  List indexing \<open>xs[i]\<close> and item assignment \<open>xs[i] = v\<close>: an index from \<open>-len(xs)\<close> to
  \<open>-1\<close> counts from the end, and an index outside \<open>[-len(xs), len(xs))\<close> raises IndexError.
\<close>

definition py_get :: "'a list \<Rightarrow> int \<Rightarrow> error + 'a" where
  "py_get xs i =
     (if 0 \<le> i \<and> i < int (length xs) then Inr (xs ! nat i)
      else if - int (length xs) \<le> i \<and> i < 0 then Inr (xs ! nat (int (length xs) + i))
      else Inl IndexError)"

definition py_set :: "'a list \<Rightarrow> int \<Rightarrow> 'a \<Rightarrow> error + 'a list" where
  "py_set xs i v =
     (if 0 \<le> i \<and> i < int (length xs) then Inr (xs[nat i := v])
      else if - int (length xs) \<le> i \<and> i < 0 then Inr (xs[nat (int (length xs) + i) := v])
      else Inl IndexError)"

section \<open>The library functions the class calls\<close>

subsection \<open>\<open>str.encode('utf-8')\<close>\<close>

text \<open>A byte is a natural number below 256. Code points from 128 on take two bytes.\<close>

definition encode_char :: "char \<Rightarrow> nat list" where
  "encode_char c =
     (if (of_char c :: nat) < 128 then [of_char c]
      else [192 + of_char c div 64, 128 + of_char c mod 64])"

definition encode_utf8 :: "string \<Rightarrow> nat list" where
  "encode_utf8 s = concat (map encode_char s)"

subsection \<open>SHA-256 (FIPS 180-4) and \<open>hexdigest\<close>\<close>

text \<open>
  A 32-bit word is a natural number below \<open>2\<^sup>3\<^sup>2\<close>; addition wraps around, and the bitwise
  complement of \<open>x\<close> is \<open>2\<^sup>3\<^sup>2 - 1 - x\<close>.
\<close>

definition add32 :: "nat \<Rightarrow> nat \<Rightarrow> nat" where
  "add32 a b = (a + b) mod 4294967296"

definition rotr :: "nat \<Rightarrow> nat \<Rightarrow> nat" where
  "rotr n x = x div 2 ^ n + (x mod 2 ^ n) * 2 ^ (32 - n)"

definition shr :: "nat \<Rightarrow> nat \<Rightarrow> nat" where
  "shr n x = x div 2 ^ n"

definition ch :: "nat \<Rightarrow> nat \<Rightarrow> nat \<Rightarrow> nat" where
  "ch x y z = (x AND y) XOR ((4294967295 - x) AND z)"

definition maj :: "nat \<Rightarrow> nat \<Rightarrow> nat \<Rightarrow> nat" where
  "maj x y z = (x AND y) XOR (x AND z) XOR (y AND z)"

definition bsig0 :: "nat \<Rightarrow> nat" where
  "bsig0 x = rotr 2 x XOR rotr 13 x XOR rotr 22 x"

definition bsig1 :: "nat \<Rightarrow> nat" where
  "bsig1 x = rotr 6 x XOR rotr 11 x XOR rotr 25 x"

definition ssig0 :: "nat \<Rightarrow> nat" where
  "ssig0 x = rotr 7 x XOR rotr 18 x XOR shr 3 x"

definition ssig1 :: "nat \<Rightarrow> nat" where
  "ssig1 x = rotr 17 x XOR rotr 19 x XOR shr 10 x"

text \<open>The sixty-four round constants and the initial hash value.\<close>

definition K256 :: "nat list" where
  "K256 = [
   0x428A2F98, 0x71374491, 0xB5C0FBCF, 0xE9B5DBA5, 0x3956C25B, 0x59F111F1, 0x923F82A4, 0xAB1C5ED5,
   0xD807AA98, 0x12835B01, 0x243185BE, 0x550C7DC3, 0x72BE5D74, 0x80DEB1FE, 0x9BDC06A7, 0xC19BF174,
   0xE49B69C1, 0xEFBE4786, 0x0FC19DC6, 0x240CA1CC, 0x2DE92C6F, 0x4A7484AA, 0x5CB0A9DC, 0x76F988DA,
   0x983E5152, 0xA831C66D, 0xB00327C8, 0xBF597FC7, 0xC6E00BF3, 0xD5A79147, 0x06CA6351, 0x14292967,
   0x27B70A85, 0x2E1B2138, 0x4D2C6DFC, 0x53380D13, 0x650A7354, 0x766A0ABB, 0x81C2C92E, 0x92722C85,
   0xA2BFE8A1, 0xA81A664B, 0xC24B8B70, 0xC76C51A3, 0xD192E819, 0xD6990624, 0xF40E3585, 0x106AA070,
   0x19A4C116, 0x1E376C08, 0x2748774C, 0x34B0BCB5, 0x391C0CB3, 0x4ED8AA4A, 0x5B9CCA4F, 0x682E6FF3,
   0x748F82EE, 0x78A5636F, 0x84C87814, 0x8CC70208, 0x90BEFFFA, 0xA4506CEB, 0xBEF9A3F7, 0xC67178F2]"

definition H256 :: "nat list" where
  "H256 = [0x6A09E667, 0xBB67AE85, 0x3C6EF372, 0xA54FF53A,
           0x510E527F, 0x9B05688C, 0x1F83D9AB, 0x5BE0CD19]"

text \<open>
  The message schedule, produced from a window of the sixteen most recent words (oldest
  first): each new word is \<open>\<sigma>\<^sub>1\<close> of the word two back, plus the word seven back, plus
  \<open>\<sigma>\<^sub>0\<close> of the word fifteen back, plus the word sixteen back.
\<close>

fun sched :: "nat \<Rightarrow> nat list \<Rightarrow> nat list" where
  "sched 0 ws = []"
| "sched (Suc n) ws =
     hd ws # sched n (tl ws @
       [add32 (add32 (add32 (ssig1 (ws ! 14)) (ws ! 9)) (ssig0 (ws ! 1))) (ws ! 0)])"

fun round256 :: "nat list \<Rightarrow> nat \<times> nat \<Rightarrow> nat list" where
  "round256 [a, b, c, d, e, f, g, h] (k, w) =
     (let t1 = add32 (add32 (add32 (add32 h (bsig1 e)) (ch e f g)) k) w;
          t2 = add32 (bsig0 a) (maj a b c)
      in [add32 t1 t2, a, b, c, add32 d t1, e, f, g])"
| "round256 st _ = st"

definition compress :: "nat list \<Rightarrow> nat list \<Rightarrow> nat list" where
  "compress hs blk = map2 add32 hs (foldl round256 hs (zip K256 (sched 64 blk)))"

text \<open>Bytes to big-endian words, a message to blocks of 64 bytes, and the padding.\<close>

fun be32 :: "nat list \<Rightarrow> nat list" where
  "be32 (a # b # c # d # r) = (((a * 256 + b) * 256 + c) * 256 + d) # be32 r"
| "be32 _ = []"

fun chunks :: "nat \<Rightarrow> nat \<Rightarrow> 'a list \<Rightarrow> 'a list list" where
  "chunks 0 n xs = []"
| "chunks (Suc k) n xs = take n xs # chunks k n (drop n xs)"

definition be64 :: "nat \<Rightarrow> nat list" where
  "be64 n = map (\<lambda>i. n div 256 ^ i mod 256) [7, 6, 5, 4, 3, 2, 1, 0]"

definition pad :: "nat list \<Rightarrow> nat list" where
  "pad m = m @ [128] @ replicate ((119 - length m mod 64) mod 64) 0 @ be64 (8 * length m)"

definition sha256 :: "nat list \<Rightarrow> nat list" where
  "sha256 m = foldl compress H256 (map be32 (chunks (length (pad m) div 64) 64 (pad m)))"

definition hexdigit :: "nat \<Rightarrow> char" where
  "hexdigit n = ''0123456789abcdef'' ! n"

definition hex32 :: "nat \<Rightarrow> string" where
  "hex32 w = map (\<lambda>i. hexdigit (w div 16 ^ i mod 16)) [7, 6, 5, 4, 3, 2, 1, 0]"

definition hexdigest :: "nat list \<Rightarrow> string" where
  "hexdigest ws = concat (map hex32 ws)"

text \<open>
  What reaches \<open>hashlib.sha256\<close> is either text or bytes. The library takes bytes only:
  \<open>hashlib.sha256('abc')\<close> raises \<open>TypeError\<close> (strings must be encoded before hashing).
\<close>

datatype pydata = PyStr string | PyBytes "nat list"

fun sha256_hexdigest :: "pydata \<Rightarrow> error + string" where
  "sha256_hexdigest (PyStr s) = Inl TypeError"
| "sha256_hexdigest (PyBytes b) = Inr (hexdigest (sha256 b))"

subsection \<open>\<open>json.dumps(d, sort_keys=True)\<close>\<close>

text \<open>
  The fragment of JSON the model covers: a dictionary with text keys whose values are text,
  integers, booleans or \<open>None\<close>. The default separators are \<open>', '\<close> and \<open>': '\<close>, and every
  character outside the printable ASCII range is escaped (\<open>ensure_ascii\<close>).
\<close>

datatype jvalue = JStr string | JInt int | JBool bool | JNull

definition json_escape_char :: "char \<Rightarrow> string" where
  "json_escape_char c =
     (let n = (of_char c :: nat) in
      if n = 34 then [CHR 0x5C, CHR 0x22]
      else if n = 92 then [CHR 0x5C, CHR 0x5C]
      else if n = 10 then [CHR 0x5C, CHR ''n'']
      else if n = 13 then [CHR 0x5C, CHR ''r'']
      else if n = 9 then [CHR 0x5C, CHR ''t'']
      else if n = 8 then [CHR 0x5C, CHR ''b'']
      else if n = 12 then [CHR 0x5C, CHR ''f'']
      else if 32 \<le> n \<and> n \<le> 126 then [c]
      else [CHR 0x5C, CHR ''u'', CHR ''0'', CHR ''0'', hexdigit (n div 16), hexdigit (n mod 16)])"

definition json_string :: "string \<Rightarrow> string" where
  "json_string s = [CHR 0x22] @ concat (map json_escape_char s) @ [CHR 0x22]"

fun decimal :: "nat \<Rightarrow> string" where
  "decimal n = (if n < 10 then [hexdigit n] else decimal (n div 10) @ [hexdigit (n mod 10)])"

definition json_int :: "int \<Rightarrow> string" where
  "json_int i = (if i < 0 then CHR ''-'' # decimal (nat (- i)) else decimal (nat i))"

fun json_value :: "jvalue \<Rightarrow> string" where
  "json_value (JStr s) = json_string s"
| "json_value (JInt i) = json_int i"
| "json_value (JBool b) = (if b then ''true'' else ''false'')"
| "json_value JNull = ''null''"

fun join :: "string \<Rightarrow> string list \<Rightarrow> string" where
  "join sep [] = []"
| "join sep [x] = x"
| "join sep (x # y # ys) = x @ sep @ join sep (y # ys)"

definition json_dumps :: "(string \<times> jvalue) list \<Rightarrow> string" where
  "json_dumps d =
     ''{'' @ join '', '' (map (\<lambda>(k, v). json_string k @ '': '' @ json_value v)
                              (sort_key fst d)) @ ''}''"

section \<open>The class \<open>MerkleTree\<close>\<close>

text \<open>
  A record handed to the tree is a dictionary, text, or a value of any other type. A value
  of another type enters the computation only through \<open>str(data)\<close>, so it is represented
  by that text.
\<close>

datatype pyrecord = Dict "(string \<times> jvalue) list" | Text string | Other string

text \<open>The object's two attributes. After \<open>__init__\<close>, \<open>tree[0]\<close> is the list \<open>leaves\<close>.\<close>

record merkle =
  leaves :: "string list"
  tree :: "string list list"

text \<open>A proof step is a dictionary with the keys \<open>'hash'\<close> and \<open>'position'\<close>.\<close>

record proof_step =
  hash :: string
  position :: string

subsection \<open>\<open>_hash_data\<close>\<close>

fun hash_data :: "pyrecord \<Rightarrow> error + string" where
  "hash_data (Dict d) = sha256_hexdigest (PyStr (json_dumps d))"
| "hash_data (Text s) = sha256_hexdigest (PyBytes (encode_utf8 s))"
| "hash_data (Other s) = sha256_hexdigest (PyBytes (encode_utf8 s))"

text \<open>The digest of a text: what \<open>_hash_data\<close> returns for a \<open>str\<close>.\<close>

definition hash_str :: "string \<Rightarrow> string" where
  "hash_str s = hexdigest (sha256 (encode_utf8 s))"

subsection \<open>\<open>_build_tree\<close>\<close>

text \<open>
  The \<open>for\<close> loop over \<open>range(0, len(current_level), 2)\<close>: it takes the nodes two at a
  time, and the last node of a level of odd length is combined with itself.
\<close>

fun next_level :: "string list \<Rightarrow> error + string list" where
  "next_level [] = Inr []"
| "next_level [left] =
     (case hash_data (Text (left @ left)) of Inl e \<Rightarrow> Inl e | Inr h \<Rightarrow> Inr [h])"
| "next_level (left # right # rest) =
     (case hash_data (Text (left @ right)) of
        Inl e \<Rightarrow> Inl e
      | Inr h \<Rightarrow> (case next_level rest of Inl e \<Rightarrow> Inl e | Inr hs \<Rightarrow> Inr (h # hs)))"

text \<open>The \<open>while\<close> loop, with the tree built so far and the current level.\<close>

function build_loop :: "string list list \<Rightarrow> string list \<Rightarrow> error + string list list" where
  "build_loop tr current_level =
     (if length current_level > 1 then
        (case next_level current_level of
           Inl e \<Rightarrow> Inl e
         | Inr nl \<Rightarrow> build_loop (tr @ [nl]) nl)
      else Inr tr)"
  by pat_completeness auto
termination
proof (relation "measure (\<lambda>(tr, cur). length cur)")
  show "wf (measure (\<lambda>(tr, cur). length cur))" by simp
next
  fix tr :: "string list list" and current_level nl :: "string list"
  assume long: "1 < length current_level" and nl: "next_level current_level = Inr nl"
  have "next_level xs = Inr ys \<Longrightarrow> length ys = (length xs + 1) div 2" for xs ys
    by (induction xs arbitrary: ys rule: next_level.induct) (auto split: sum.splits)
  from this [OF nl] long
  show "((tr @ [nl], nl), (tr, current_level)) \<in> measure (\<lambda>(tr, cur). length cur)"
    by simp
qed

definition build_tree :: "string list \<Rightarrow> error + string list list" where
  "build_tree ls = build_loop [ls] ls"

subsection \<open>\<open>__init__\<close>\<close>

fun hash_all :: "pyrecord list \<Rightarrow> error + string list" where
  "hash_all [] = Inr []"
| "hash_all (d # ds) =
     (case hash_data d of
        Inl e \<Rightarrow> Inl e
      | Inr h \<Rightarrow> (case hash_all ds of Inl e \<Rightarrow> Inl e | Inr hs \<Rightarrow> Inr (h # hs)))"

definition MerkleTree :: "pyrecord list \<Rightarrow> error + merkle" where
  "MerkleTree data_list =
     (case hash_all data_list of
        Inl e \<Rightarrow> Inl e
      | Inr ls \<Rightarrow> (case build_tree ls of
                    Inl e \<Rightarrow> Inl e
                  | Inr tr \<Rightarrow> Inr \<lparr>leaves = ls, tree = tr\<rparr>))"

subsection \<open>Accessors\<close>

definition get_root :: "merkle \<Rightarrow> error + string option" where
  \<comment> \<open>\<open>self.tree[-1][0] if self.tree else None\<close>\<close>
  "get_root t =
     (if tree t \<noteq> [] then
        (case py_get (tree t) (- 1) of
           Inl e \<Rightarrow> Inl e
         | Inr top_level \<Rightarrow> (case py_get top_level 0 of Inl e \<Rightarrow> Inl e | Inr r \<Rightarrow> Inr (Some r)))
      else Inr None)"

definition get_tree_height :: "merkle \<Rightarrow> nat" where
  "get_tree_height t = length (tree t)"

definition get_level_nodes :: "merkle \<Rightarrow> int \<Rightarrow> error + string list" where
  "get_level_nodes t level =
     (if level < 0 \<or> level \<ge> int (length (tree t)) then Inl IndexError
      else py_get (tree t) level)"

definition find_sibling :: "merkle \<Rightarrow> int \<Rightarrow> error + string option" where
  "find_sibling t index =
     (if index < 0 \<or> index \<ge> int (length (leaves t)) then Inl IndexError
      else let sibling_index = index XOR 1 in
        if sibling_index < int (length (leaves t)) then
          (case py_get (tree t) 0 of
             Inl e \<Rightarrow> Inl e
           | Inr level0 \<Rightarrow> (case py_get level0 sibling_index of
                             Inl e \<Rightarrow> Inl e
                           | Inr h \<Rightarrow> Inr (Some h)))
        else Inr None)"

subsection \<open>\<open>get_proof\<close>\<close>

text \<open>
  The loop over \<open>range(len(self.tree) - 1)\<close> reads \<open>self.tree[level]\<close> only, so it runs
  over the levels below the top one, in order, carrying the index.
\<close>

fun proof_loop :: "string list list \<Rightarrow> int \<Rightarrow> error + proof_step list" where
  "proof_loop [] index = Inr []"
| "proof_loop (lv # lvs) index =
     (let sibling_index = index XOR 1 in
      if sibling_index < int (length lv) then
        (case py_get lv sibling_index of
           Inl e \<Rightarrow> Inl e
         | Inr h \<Rightarrow>
            (case proof_loop lvs (index div 2) of
               Inl e \<Rightarrow> Inl e
             | Inr steps \<Rightarrow>
                 Inr (\<lparr>hash = h,
                       position = (if sibling_index < index then ''left'' else ''right'')\<rparr>
                      # steps)))
      else proof_loop lvs (index div 2))"

definition get_proof :: "merkle \<Rightarrow> int \<Rightarrow> error + proof_step list" where
  "get_proof t index =
     (if index < 0 \<or> index \<ge> int (length (leaves t)) then Inl IndexError
      else proof_loop (butlast (tree t)) index)"

subsection \<open>\<open>verify_proof\<close>\<close>

fun verify_loop :: "string \<Rightarrow> proof_step list \<Rightarrow> error + string" where
  "verify_loop current_hash [] = Inr current_hash"
| "verify_loop current_hash (sibling # rest) =
     (if position sibling = ''left'' then
        (case hash_data (Text (hash sibling @ current_hash)) of
           Inl e \<Rightarrow> Inl e
         | Inr h \<Rightarrow> verify_loop h rest)
      else if position sibling = ''right'' then
        (case hash_data (Text (current_hash @ hash sibling)) of
           Inl e \<Rightarrow> Inl e
         | Inr h \<Rightarrow> verify_loop h rest)
      else verify_loop current_hash rest)"

definition verify_proof :: "pyrecord \<Rightarrow> proof_step list \<Rightarrow> string option \<Rightarrow> error + bool" where
  \<comment> \<open>the root is whatever \<open>get_root\<close> gave: a digest or \<open>None\<close>\<close>
  "verify_proof leaf proof root_hash =
     (case hash_data leaf of
        Inl e \<Rightarrow> Inl e
      | Inr h \<Rightarrow> (case verify_loop h proof of
                   Inl e \<Rightarrow> Inl e
                 | Inr current_hash \<Rightarrow> Inr (Some current_hash = root_hash)))"

subsection \<open>\<open>check_integrity\<close>\<close>

text \<open>
  The helper tests each argument for \<open>None\<close> before it concatenates. When both are \<open>None\<close>
  it hashes \<open>None\<close> itself, which \<open>_hash_data\<close> turns into the text \<open>'None'\<close>.
\<close>

fun combine_hashes :: "string option \<Rightarrow> string option \<Rightarrow> error + string" where
  "combine_hashes None right =
     hash_data (case right of None \<Rightarrow> Other ''None'' | Some r \<Rightarrow> Text r)"
| "combine_hashes (Some left) None = hash_data (Text left)"
| "combine_hashes (Some left) (Some right) = hash_data (Text (left @ right))"

text \<open>
  The inner loop over one level: the nodes that remain, the level above, and \<open>i // 2\<close>.
  The result is \<open>False\<close> at the first mismatch, as the \<open>return False\<close> leaves both loops.
\<close>

fun check_level :: "string list \<Rightarrow> string list \<Rightarrow> int \<Rightarrow> error + bool" where
  "check_level [] parents j = Inr True"
| "check_level [left] parents j =
     (case combine_hashes (Some left) (Some left) of
        Inl e \<Rightarrow> Inl e
      | Inr expected \<Rightarrow>
          (case py_get parents j of
             Inl e \<Rightarrow> Inl e
           | Inr p \<Rightarrow> if expected \<noteq> p then Inr False else Inr True))"
| "check_level (left # right # rest) parents j =
     (case combine_hashes (Some left) (Some right) of
        Inl e \<Rightarrow> Inl e
      | Inr expected \<Rightarrow>
          (case py_get parents j of
             Inl e \<Rightarrow> Inl e
           | Inr p \<Rightarrow> if expected \<noteq> p then Inr False
                      else check_level rest parents (j + 1)))"

text \<open>The outer loop, from the given level down to level 0.\<close>

fun check_down :: "string list list \<Rightarrow> nat \<Rightarrow> error + bool" where
  "check_down tr 0 = check_level (tr ! 0) (tr ! 1) 0"
| "check_down tr (Suc level) =
     (case check_level (tr ! Suc level) (tr ! Suc (Suc level)) 0 of
        Inl e \<Rightarrow> Inl e
      | Inr ok \<Rightarrow> if ok then check_down tr level else Inr False)"

definition check_integrity :: "merkle \<Rightarrow> error + bool" where
  \<comment> \<open>\<open>range(len(self.tree) - 2, -1, -1)\<close> is empty when the tree has fewer than two levels\<close>
  "check_integrity t =
     (if length (tree t) < 2 then Inr True else check_down (tree t) (length (tree t) - 2))"

subsection \<open>\<open>test_immutability\<close>\<close>

text \<open>
  The method returns whether the two roots match, and leaves the object in a new state.
  Assigning to \<open>self.leaves[index]\<close> also changes \<open>self.tree[0]\<close> when that is the same
  list, which it is after construction; \<open>self.tree\<close> is replaced in the next statement.
\<close>

definition test_immutability :: "merkle \<Rightarrow> int \<Rightarrow> pyrecord \<Rightarrow> error + (bool \<times> merkle)" where
  "test_immutability t index new_value =
     (case get_root t of Inl e \<Rightarrow> Inl e | Inr original_root \<Rightarrow>
      case py_get (leaves t) index of Inl e \<Rightarrow> Inl e | Inr original_leaf \<Rightarrow>
      case hash_data new_value of Inl e \<Rightarrow> Inl e | Inr h \<Rightarrow>
      case py_set (leaves t) index h of Inl e \<Rightarrow> Inl e | Inr ls1 \<Rightarrow>
      case build_tree ls1 of Inl e \<Rightarrow> Inl e | Inr tr1 \<Rightarrow>
      case get_root \<lparr>leaves = ls1, tree = tr1\<rparr> of Inl e \<Rightarrow> Inl e | Inr updated_root \<Rightarrow>
      case py_set ls1 index original_leaf of Inl e \<Rightarrow> Inl e | Inr ls2 \<Rightarrow>
      case build_tree ls2 of Inl e \<Rightarrow> Inl e | Inr tr2 \<Rightarrow>
        Inr (original_root = updated_root, \<lparr>leaves = ls2, tree = tr2\<rparr>))"

section \<open>Notions used in the statements and proofs\<close>

text \<open>Each level of a tree is what the builder's inner loop makes of the level below.\<close>

definition linked :: "string list list \<Rightarrow> bool" where
  "linked tr \<longleftrightarrow> (\<forall>k. Suc k < length tr \<longrightarrow> next_level (tr ! k) = Inr (tr ! Suc k))"

text \<open>The tree of the three records \<open>'a'\<close>, \<open>'b'\<close>, \<open>'c'\<close>, level by level.\<close>

definition abc_tree :: merkle where
  "abc_tree =
     \<lparr>leaves = [hash_str ''a'', hash_str ''b'', hash_str ''c''],
      tree = [[hash_str ''a'', hash_str ''b'', hash_str ''c''],
              [hash_str (hash_str ''a'' @ hash_str ''b''),
               hash_str (hash_str ''c'' @ hash_str ''c'')],
              [hash_str (hash_str (hash_str ''a'' @ hash_str ''b'')
                         @ hash_str (hash_str ''c'' @ hash_str ''c''))]]\<rparr>"

section \<open>Basic facts\<close>

lemma hash_data_Text [simp]: "hash_data (Text s) = Inr (hash_str s)"
  by (simp add: hash_str_def)

lemma hash_data_Other [simp]: "hash_data (Other s) = Inr (hash_str s)"
  by (simp add: hash_str_def)

lemma hash_data_Dict [simp]: "hash_data (Dict d) = Inl TypeError"
  by simp

declare hash_data.simps [simp del]
declare build_loop.simps [simp del]

lemma py_get_nat: "n < length xs \<Longrightarrow> py_get xs (int n) = Inr (xs ! n)"
  by (simp add: py_get_def)

lemma py_get_in_range: "0 \<le> i \<Longrightarrow> i < int (length xs) \<Longrightarrow> py_get xs i = Inr (xs ! nat i)"
  by (simp add: py_get_def)

lemma py_set_in_range:
  "0 \<le> i \<Longrightarrow> i < int (length xs) \<Longrightarrow> py_set xs i v = Inr (xs[nat i := v])"
  by (simp add: py_set_def)

subsection \<open>The builder\<close>

lemma next_level_length:
  "next_level xs = Inr ys \<Longrightarrow> length ys = (length xs + 1) div 2"
  by (induction xs arbitrary: ys rule: next_level.induct) (auto split: sum.splits)

lemma next_level_total: "\<exists>ys. next_level xs = Inr ys"
  by (induction xs rule: next_level.induct) auto

lemma next_level_nonempty: "next_level xs = Inr ys \<Longrightarrow> xs \<noteq> [] \<Longrightarrow> ys \<noteq> []"
  using next_level_length [of xs ys] by (cases xs) auto

lemma linked_single: "linked [ls]"
  by (simp add: linked_def)

lemma linked_snoc:
  assumes "linked tr" "tr \<noteq> []" "next_level (last tr) = Inr nl"
  shows "linked (tr @ [nl])"
  unfolding linked_def
proof (intro allI impI)
  fix k assume k: "Suc k < length (tr @ [nl])"
  show "next_level ((tr @ [nl]) ! k) = Inr ((tr @ [nl]) ! Suc k)"
  proof (cases "Suc k < length tr")
    case True
    with assms(1) show ?thesis by (simp add: linked_def nth_append)
  next
    case False
    with k have "k = length tr - 1" by simp
    with assms(2,3) show ?thesis by (simp add: nth_append last_conv_nth)
  qed
qed

lemma build_loop_total: "\<exists>res. build_loop tr cur = Inr res"
proof (induction tr cur rule: build_loop.induct)
  case (1 tr cur)
  obtain nl where nl: "next_level cur = Inr nl" using next_level_total by blast
  show ?case
  proof (cases "1 < length cur")
    case True
    with 1 [OF True nl] nl show ?thesis by (subst build_loop.simps) simp
  next
    case False
    then show ?thesis by (subst build_loop.simps) simp
  qed
qed

lemma build_loop_inv:
  "build_loop tr cur = Inr res \<Longrightarrow> tr \<noteq> [] \<Longrightarrow> last tr = cur \<Longrightarrow> linked tr \<Longrightarrow>
   linked res \<and> res \<noteq> [] \<and> hd res = hd tr \<and> length (last res) \<le> 1
     \<and> (cur \<noteq> [] \<longrightarrow> last res \<noteq> [])"
proof (induction tr cur arbitrary: res rule: build_loop.induct)
  case (1 tr cur)
  show ?case
  proof (cases "1 < length cur")
    case True
    obtain nl where nl: "next_level cur = Inr nl" using next_level_total by blast
    from "1.prems"(1) True nl have r: "build_loop (tr @ [nl]) nl = Inr res"
      by (subst (asm) build_loop.simps) simp
    have l: "linked (tr @ [nl])"
      using linked_snoc "1.prems" nl by blast
    from True have "cur \<noteq> []" by auto
    with next_level_nonempty [OF nl] have ne: "nl \<noteq> []" by simp
    from "1.IH" [OF True nl r _ _ l] ne "1.prems"(2) show ?thesis by simp
  next
    case False
    with "1.prems"(1) have "res = tr" by (subst (asm) build_loop.simps) simp
    with False "1.prems" show ?thesis by (cases cur) auto
  qed
qed

lemma build_tree_total: "\<exists>tr. build_tree ls = Inr tr"
  by (simp add: build_tree_def build_loop_total)

lemma build_tree_inv:
  assumes "build_tree ls = Inr tr"
  shows "linked tr" "tr \<noteq> []" "hd tr = ls" "length (last tr) \<le> 1" "ls \<noteq> [] \<Longrightarrow> last tr \<noteq> []"
  using build_loop_inv [of "[ls]" ls tr] assms by (simp_all add: build_tree_def linked_single)

lemma hash_all_length: "hash_all rs = Inr ls \<Longrightarrow> length ls = length rs"
  by (induction rs arbitrary: ls) (auto split: sum.splits)

lemma MerkleTree_Inr:
  "MerkleTree rs = Inr t \<Longrightarrow> hash_all rs = Inr (leaves t) \<and> build_tree (leaves t) = Inr (tree t)"
  by (auto simp: MerkleTree_def split: sum.splits)

lemma MerkleTree_abc: "MerkleTree [Text ''a'', Text ''b'', Text ''c''] = Inr abc_tree"
  by (simp add: MerkleTree_def build_tree_def build_loop.simps abc_tree_def)

subsection \<open>The integrity check on linked levels\<close>

lemma check_level_linked:
  "next_level xs = Inr ps \<Longrightarrow> check_level xs (pre @ ps) (int (length pre)) = Inr True"
proof (induction xs arbitrary: ps pre rule: next_level.induct)
  case 1
  then show ?case by simp
next
  case (2 left)
  then show ?case using py_get_nat [of "length pre" "pre @ ps"] by auto
next
  case (3 left right rest)
  from "3.prems" obtain hs where hs: "next_level rest = Inr hs"
    and ps: "ps = hash_str (left @ right) # hs"
    by (auto split: sum.splits)
  have g: "py_get (pre @ ps) (int (length pre)) = Inr (hash_str (left @ right))"
    using py_get_nat [of "length pre" "pre @ ps"] ps by simp
  have "check_level rest ((pre @ [hash_str (left @ right)]) @ hs)
          (int (length (pre @ [hash_str (left @ right)]))) = Inr True"
    using "3.IH" [OF hash_data_Text hs, of "pre @ [hash_str (left @ right)]"] by simp
  then show ?case using g ps by (simp add: add.commute)
qed

lemma check_down_linked:
  "linked tr \<Longrightarrow> Suc n < length tr \<Longrightarrow> check_down tr n = Inr True"
proof (induction n)
  case 0
  then have "next_level (tr ! 0) = Inr (tr ! 1)" by (simp add: linked_def)
  from check_level_linked [OF this, of "[]"] show ?case by simp
next
  case (Suc n)
  then have "next_level (tr ! Suc n) = Inr (tr ! Suc (Suc n))" by (simp add: linked_def)
  from check_level_linked [OF this, of "[]"] Suc show ?case by simp
qed

subsection \<open>The proof generator\<close>

lemma proof_loop_total: "0 \<le> index \<Longrightarrow> \<exists>p. proof_loop lvs index = Inr p"
proof (induction lvs arbitrary: index)
  case Nil
  then show ?case by simp
next
  case (Cons lv lvs)
  from Cons.prems have d: "0 \<le> index div 2" by simp
  from Cons.IH [OF d] obtain p where p: "proof_loop lvs (index div 2) = Inr p" by blast
  show ?case
  proof (cases "index XOR 1 < int (length lv)")
    case True
    with Cons.prems have "py_get lv (index XOR 1) = Inr (lv ! nat (index XOR 1))"
      by (intro py_get_in_range) simp_all
    with True p show ?thesis by (simp add: Let_def)
  next
    case False
    with p show ?thesis by (simp add: Let_def)
  qed
qed

subsection \<open>The root of a built tree\<close>

lemma get_root_built:
  assumes "build_tree ls = Inr (tree t)" "ls \<noteq> []"
  shows "\<exists>r. get_root t = Inr (Some r)"
proof -
  from build_tree_inv [OF assms(1)] assms(2)
  have n: "tree t \<noteq> []" and e: "last (tree t) \<noteq> []" by simp_all
  from n have "py_get (tree t) (- 1) = Inr (last (tree t))"
    by (cases "tree t" rule: rev_cases) (simp_all add: py_get_def)
  moreover from e have "py_get (last (tree t)) 0 = Inr (hd (last (tree t)))"
    by (simp add: py_get_def hd_conv_nth)
  ultimately show ?thesis using n by (simp add: get_root_def)
qed

subsection \<open>The verifier\<close>

lemma verify_loop_skip:
  "position st \<noteq> ''left'' \<Longrightarrow> position st \<noteq> ''right'' \<Longrightarrow>
   verify_loop h (p1 @ st # p2) = verify_loop h (p1 @ p2)"
  by (induction p1 arbitrary: h) (auto split: sum.splits)

lemma verify_loop_all_skipped:
  "\<forall>st \<in> set p. position st \<noteq> ''left'' \<and> position st \<noteq> ''right'' \<Longrightarrow> verify_loop h p = Inr h"
  by (induction p) auto

subsection \<open>Halving, rounded up\<close>

lemma ceiling_half: "\<lceil>real n / 2\<rceil> = int ((n + 1) div 2)"
  by (simp add: ceiling_eq_iff) (auto simp: field_simps; presburger)

section \<open>SHA-256 on the records \<open>'a'\<close>, \<open>'b'\<close>, \<open>'c'\<close>\<close>

text \<open>
  The digests of the three leaves, of the two nodes above them, of the root, and of the
  text the verifier hashes for leaf 2, each computed block by block.
\<close>

lemma sched_numeral:
  "sched (numeral k) ws =
     hd ws # sched (pred_numeral k) (tl ws @
       [add32 (add32 (add32 (ssig1 (ws ! 14)) (ws ! 9)) (ssig0 (ws ! 1))) (ws ! 0)])"
  by (simp add: numeral_eq_Suc)

lemma sched_1: "sched 1 ws = [hd ws]"
  by simp

lemma chunks_numeral:
  "chunks (numeral k) n xs = take n xs # chunks (pred_numeral k) n (drop n xs)"
  by (simp add: numeral_eq_Suc)

lemma chunks_1: "chunks 1 n xs = [take n xs]"
  by simp

lemma replicate_numeral_Cons: "replicate (numeral k) x = x # replicate (pred_numeral k) x"
  by (simp add: numeral_eq_Suc)

lemma length_Cons_plus: "length (x # xs) = length xs + 1"
  by simp

lemmas sha_eval = sched_numeral sched_1 ssig0_def ssig1_def bsig0_def bsig1_def ch_def maj_def
  rotr_def shr_def add32_def numeral_and_num numeral_xor_num Let_def compress_def K256_def

lemmas block_eval = pad_def be64_def encode_utf8_def encode_char_def chunks_numeral chunks_1
  length_Cons_plus replicate_numeral_Cons

lemma blocks_leaf_a:
  "map be32 (chunks (length (pad (encode_utf8 ''a'')) div 64) 64
     (pad (encode_utf8 ''a''))) =
   [[1635778560, 0, 0, 0, 0, 0, 0, 0, 0, 0, 0, 0, 0, 0, 0, 8]]"
  by (simp add: block_eval del: length_Cons)

lemma compress_leaf_a_1:
  "compress [1779033703, 3144134277, 1013904242, 2773480762, 1359893119, 2600822924, 528734635,
     1541459225]
     [1635778560, 0, 0, 0, 0, 0, 0, 0, 0, 0, 0, 0, 0, 0, 0, 8] =
   [3398926610, 3390815690, 4207030707, 2586041421, 2810638328, 343690866, 3112204165,
   2951628987]"
  by (simp add: sha_eval del: and_numerals(3,4,6,7) xor_numerals(3,4,6,7))

lemma digest_leaf_a:
  "hexdigest [3398926610, 3390815690, 4207030707, 2586041421, 2810638328, 343690866, 3112204165,
   2951628987] =
   ''ca978112ca1bbdcafac231b39a23dc4da786eff8147c4e72b9807785afee48bb''"
  by (simp add: hexdigest_def hex32_def hexdigit_def)

lemma hash_str_leaf_a:
  "hash_str ''a'' =
   ''ca978112ca1bbdcafac231b39a23dc4da786eff8147c4e72b9807785afee48bb''"
  by (simp only: hash_str_def sha256_def blocks_leaf_a foldl_Cons foldl_Nil H256_def
      compress_leaf_a_1 digest_leaf_a)

lemma blocks_leaf_b:
  "map be32 (chunks (length (pad (encode_utf8 ''b'')) div 64) 64
     (pad (encode_utf8 ''b''))) =
   [[1652555776, 0, 0, 0, 0, 0, 0, 0, 0, 0, 0, 0, 0, 0, 0, 8]]"
  by (simp add: block_eval del: length_Cons)

lemma compress_leaf_b_1:
  "compress [1779033703, 3144134277, 1013904242, 2773480762, 1359893119, 2600822924, 528734635,
     1541459225]
     [1652555776, 0, 0, 0, 0, 0, 0, 0, 0, 0, 0, 0, 0, 0, 0, 8] =
   [1042540566, 3758410, 864636773, 1692512564, 2344450560, 2295606346, 3413372590,
   3583770781]"
  by (simp add: sha_eval del: and_numerals(3,4,6,7) xor_numerals(3,4,6,7))

lemma digest_leaf_b:
  "hexdigest [1042540566, 3758410, 864636773, 1692512564, 2344450560, 2295606346, 3413372590,
   3583770781] =
   ''3e23e8160039594a33894f6564e1b1348bbd7a0088d42c4acb73eeaed59c009d''"
  by (simp add: hexdigest_def hex32_def hexdigit_def)

lemma hash_str_leaf_b:
  "hash_str ''b'' =
   ''3e23e8160039594a33894f6564e1b1348bbd7a0088d42c4acb73eeaed59c009d''"
  by (simp only: hash_str_def sha256_def blocks_leaf_b foldl_Cons foldl_Nil H256_def
      compress_leaf_b_1 digest_leaf_b)

lemma blocks_leaf_c:
  "map be32 (chunks (length (pad (encode_utf8 ''c'')) div 64) 64
     (pad (encode_utf8 ''c''))) =
   [[1669332992, 0, 0, 0, 0, 0, 0, 0, 0, 0, 0, 0, 0, 0, 0, 8]]"
  by (simp add: block_eval del: length_Cons)

lemma compress_leaf_c_1:
  "compress [1779033703, 3144134277, 1013904242, 2773480762, 1359893119, 2600822924, 528734635,
     1541459225]
     [1669332992, 0, 0, 0, 0, 0, 0, 0, 0, 0, 0, 0, 0, 0, 0, 8] =
   [779955203, 2840623842, 1710028213, 896042405, 865313282, 2636387220, 2574411169,
   2723868614]"
  by (simp add: sha_eval del: and_numerals(3,4,6,7) xor_numerals(3,4,6,7))

lemma digest_leaf_c:
  "hexdigest [779955203, 2840623842, 1710028213, 896042405, 865313282, 2636387220, 2574411169,
   2723868614] =
   ''2e7d2c03a9507ae265ecf5b5356885a53393a2029d241394997265a1a25aefc6''"
  by (simp add: hexdigest_def hex32_def hexdigit_def)

lemma hash_str_leaf_c:
  "hash_str ''c'' =
   ''2e7d2c03a9507ae265ecf5b5356885a53393a2029d241394997265a1a25aefc6''"
  by (simp only: hash_str_def sha256_def blocks_leaf_c foldl_Cons foldl_Nil H256_def
      compress_leaf_c_1 digest_leaf_c)

lemma blocks_node_ab:
  "map be32 (chunks (length (pad (encode_utf8 ''ca978112ca1bbdcafac231b39a23dc4da786eff8147c4e72b9807785afee48bb3e23e8160039594a33894f6564e1b1348bbd7a0088d42c4acb73eeaed59c009d'')) div 64) 64
     (pad (encode_utf8 ''ca978112ca1bbdcafac231b39a23dc4da786eff8147c4e72b9807785afee48bb3e23e8160039594a33894f6564e1b1348bbd7a0088d42c4acb73eeaed59c009d''))) =
   [[1667316023, 942747954, 1667314018, 1650746209, 1717658418, 858874419, 962671155,
    1684223076, 1631008822, 1701209656, 825505635, 879048498, 1647917104, 926365749,
    1634100581, 876110434],
    [862270003, 1698181430, 808465209, 892941409, 858994745, 879113781, 909403441,
    1647391540, 945971812, 929116208, 943219764, 845362273, 1667381043, 1701142885,
    1681209699, 808466788],
    [2147483648, 0, 0, 0, 0, 0, 0, 0, 0, 0, 0, 0, 0, 0, 0, 1024]]"
  by (simp add: block_eval del: length_Cons)

lemma compress_node_ab_1:
  "compress [1779033703, 3144134277, 1013904242, 2773480762, 1359893119, 2600822924, 528734635,
     1541459225]
     [1667316023, 942747954, 1667314018, 1650746209, 1717658418, 858874419, 962671155,
     1684223076, 1631008822, 1701209656, 825505635, 879048498, 1647917104, 926365749,
     1634100581, 876110434] =
   [4275646602, 1953421439, 2687377433, 1359639224, 103427014, 378275622, 914551992,
   2223833980]"
  by (simp add: sha_eval del: and_numerals(3,4,6,7) xor_numerals(3,4,6,7))

lemma compress_node_ab_2:
  "compress [4275646602, 1953421439, 2687377433, 1359639224, 103427014, 378275622, 914551992,
     2223833980]
     [862270003, 1698181430, 808465209, 892941409, 858994745, 879113781, 909403441,
     1647391540, 945971812, 929116208, 943219764, 845362273, 1667381043, 1701142885,
     1681209699, 808466788] =
   [3208137217, 1476163895, 1823821994, 3667431064, 1905538408, 3467620475, 3907657760,
   715905216]"
  by (simp add: sha_eval del: and_numerals(3,4,6,7) xor_numerals(3,4,6,7))

lemma compress_node_ab_3:
  "compress [3208137217, 1476163895, 1823821994, 3667431064, 1905538408, 3467620475, 3907657760,
     715905216]
     [2147483648, 0, 0, 0, 0, 0, 0, 0, 0, 0, 0, 0, 0, 0, 0, 1024] =
   [1655659580, 3101310543, 621158018, 2663311964, 1964229961, 1225874202, 3424803120,
   2835436762]"
  by (simp add: sha_eval del: and_numerals(3,4,6,7) xor_numerals(3,4,6,7))

lemma digest_node_ab:
  "hexdigest [1655659580, 3101310543, 621158018, 2663311964, 1964229961, 1225874202, 3424803120,
   2835436762] =
   ''62af5c3cb8da3e4f25061e829ebeea5c7513c54949115b1acc225930a90154da''"
  by (simp add: hexdigest_def hex32_def hexdigit_def)

lemma hash_str_node_ab:
  "hash_str ''ca978112ca1bbdcafac231b39a23dc4da786eff8147c4e72b9807785afee48bb3e23e8160039594a33894f6564e1b1348bbd7a0088d42c4acb73eeaed59c009d'' =
   ''62af5c3cb8da3e4f25061e829ebeea5c7513c54949115b1acc225930a90154da''"
  by (simp only: hash_str_def sha256_def blocks_node_ab foldl_Cons foldl_Nil H256_def
      compress_node_ab_1 compress_node_ab_2 compress_node_ab_3 digest_node_ab)

lemma blocks_node_cc:
  "map be32 (chunks (length (pad (encode_utf8 ''2e7d2c03a9507ae265ecf5b5356885a53393a2029d241394997265a1a25aefc62e7d2c03a9507ae265ecf5b5356885a53393a2029d241394997265a1a25aefc6'')) div 64) 64
     (pad (encode_utf8 ''2e7d2c03a9507ae265ecf5b5356885a53393a2029d241394997265a1a25aefc62e7d2c03a9507ae265ecf5b5356885a53393a2029d241394997265a1a25aefc6''))) =
   [[845494116, 845361203, 1631139120, 929129778, 909469027, 1714774581, 859125304,
    943022389, 858994995, 1630679090, 962867764, 825440564, 960050994, 909467953,
    1630680417, 1701208886],
    [845494116, 845361203, 1631139120, 929129778, 909469027, 1714774581, 859125304,
    943022389, 858994995, 1630679090, 962867764, 825440564, 960050994, 909467953,
    1630680417, 1701208886],
    [2147483648, 0, 0, 0, 0, 0, 0, 0, 0, 0, 0, 0, 0, 0, 0, 1024]]"
  by (simp add: block_eval del: length_Cons)

lemma compress_node_cc_1:
  "compress [1779033703, 3144134277, 1013904242, 2773480762, 1359893119, 2600822924, 528734635,
     1541459225]
     [845494116, 845361203, 1631139120, 929129778, 909469027, 1714774581, 859125304,
     943022389, 858994995, 1630679090, 962867764, 825440564, 960050994, 909467953,
     1630680417, 1701208886] =
   [3537707705, 2076031245, 3074925900, 559733694, 3496081086, 3280866736, 3332185001,
   47161912]"
  by (simp add: sha_eval del: and_numerals(3,4,6,7) xor_numerals(3,4,6,7))

lemma compress_node_cc_2:
  "compress [3537707705, 2076031245, 3074925900, 559733694, 3496081086, 3280866736, 3332185001,
     47161912]
     [845494116, 845361203, 1631139120, 929129778, 909469027, 1714774581, 859125304,
     943022389, 858994995, 1630679090, 962867764, 825440564, 960050994, 909467953,
     1630680417, 1701208886] =
   [1472361020, 30556749, 2541832161, 3697674913, 1902372255, 3344971592, 3665592747,
   4050837631]"
  by (simp add: sha_eval del: and_numerals(3,4,6,7) xor_numerals(3,4,6,7))

lemma compress_node_cc_3:
  "compress [1472361020, 30556749, 2541832161, 3697674913, 1902372255, 3344971592, 3665592747,
     4050837631]
     [2147483648, 0, 0, 0, 0, 0, 0, 0, 0, 0, 0, 0, 0, 0, 0, 1024] =
   [3574368056, 2012450763, 3312303747, 1805490073, 317705048, 2128146089, 423046464,
   995896276]"
  by (simp add: sha_eval del: and_numerals(3,4,6,7) xor_numerals(3,4,6,7))

lemma digest_node_cc:
  "hexdigest [3574368056, 2012450763, 3312303747, 1805490073, 317705048, 2128146089, 423046464,
   995896276] =
   ''d50c873877f38fcbc56dbe836b9d979912efcb587ed8eea919372d403b5c2bd4''"
  by (simp add: hexdigest_def hex32_def hexdigit_def)

lemma hash_str_node_cc:
  "hash_str ''2e7d2c03a9507ae265ecf5b5356885a53393a2029d241394997265a1a25aefc62e7d2c03a9507ae265ecf5b5356885a53393a2029d241394997265a1a25aefc6'' =
   ''d50c873877f38fcbc56dbe836b9d979912efcb587ed8eea919372d403b5c2bd4''"
  by (simp only: hash_str_def sha256_def blocks_node_cc foldl_Cons foldl_Nil H256_def
      compress_node_cc_1 compress_node_cc_2 compress_node_cc_3 digest_node_cc)

lemma blocks_root_abc:
  "map be32 (chunks (length (pad (encode_utf8 ''62af5c3cb8da3e4f25061e829ebeea5c7513c54949115b1acc225930a90154dad50c873877f38fcbc56dbe836b9d979912efcb587ed8eea919372d403b5c2bd4'')) div 64) 64
     (pad (encode_utf8 ''62af5c3cb8da3e4f25061e829ebeea5c7513c54949115b1acc225930a90154dad50c873877f38fcbc56dbe836b9d979912efcb587ed8eea919372d403b5c2bd4''))) =
   [[909271398, 895693667, 1647862881, 862270566, 842346550, 828717106, 962945637,
    1700869475, 926232883, 1664431161, 876163377, 895627617, 1667445298, 892941104,
    1631137841, 892626017],
    [1681207395, 943141688, 926377523, 946234210, 1664431716, 1650800691, 912406884,
    959920441, 825386342, 1667380536, 929391672, 1701142841, 825832247, 845427760,
    862074211, 845308980],
    [2147483648, 0, 0, 0, 0, 0, 0, 0, 0, 0, 0, 0, 0, 0, 0, 1024]]"
  by (simp add: block_eval del: length_Cons)

lemma compress_root_abc_1:
  "compress [1779033703, 3144134277, 1013904242, 2773480762, 1359893119, 2600822924, 528734635,
     1541459225]
     [909271398, 895693667, 1647862881, 862270566, 842346550, 828717106, 962945637,
     1700869475, 926232883, 1664431161, 876163377, 895627617, 1667445298, 892941104,
     1631137841, 892626017] =
   [71218920, 1968077108, 4152705834, 1689649494, 1871018961, 3301697166, 165614155,
   3267286473]"
  by (simp add: sha_eval del: and_numerals(3,4,6,7) xor_numerals(3,4,6,7))

lemma compress_root_abc_2:
  "compress [71218920, 1968077108, 4152705834, 1689649494, 1871018961, 3301697166, 165614155,
     3267286473]
     [1681207395, 943141688, 926377523, 946234210, 1664431716, 1650800691, 912406884,
     959920441, 825386342, 1667380536, 929391672, 1701142841, 825832247, 845427760,
     862074211, 845308980] =
   [2938392543, 2543405079, 3360499415, 3108860551, 2688344371, 3869531765, 4176983250,
   4256662795]"
  by (simp add: sha_eval del: and_numerals(3,4,6,7) xor_numerals(3,4,6,7))

lemma compress_root_abc_3:
  "compress [2938392543, 2543405079, 3360499415, 3108860551, 2688344371, 3869531765, 4176983250,
     4256662795]
     [2147483648, 0, 0, 0, 0, 0, 0, 0, 0, 0, 0, 0, 0, 0, 0, 1024] =
   [199174079, 2127074506, 2091777609, 516006892, 3896570135, 2560527454, 2614560868,
   1740598328]"
  by (simp add: sha_eval del: and_numerals(3,4,6,7) xor_numerals(3,4,6,7))

lemma digest_root_abc:
  "hexdigest [199174079, 2127074506, 2091777609, 516006892, 3896570135, 2560527454, 2614560868,
   1740598328] =
   ''0bdf27bf7ec894ca7cadfe491ec1a3ece840f117989e8c5e9bd7086467bf6c38''"
  by (simp add: hexdigest_def hex32_def hexdigit_def)

lemma hash_str_root_abc:
  "hash_str ''62af5c3cb8da3e4f25061e829ebeea5c7513c54949115b1acc225930a90154dad50c873877f38fcbc56dbe836b9d979912efcb587ed8eea919372d403b5c2bd4'' =
   ''0bdf27bf7ec894ca7cadfe491ec1a3ece840f117989e8c5e9bd7086467bf6c38''"
  by (simp only: hash_str_def sha256_def blocks_root_abc foldl_Cons foldl_Nil H256_def
      compress_root_abc_1 compress_root_abc_2 compress_root_abc_3 digest_root_abc)

lemma blocks_path_c:
  "map be32 (chunks (length (pad (encode_utf8 ''62af5c3cb8da3e4f25061e829ebeea5c7513c54949115b1acc225930a90154da2e7d2c03a9507ae265ecf5b5356885a53393a2029d241394997265a1a25aefc6'')) div 64) 64
     (pad (encode_utf8 ''62af5c3cb8da3e4f25061e829ebeea5c7513c54949115b1acc225930a90154da2e7d2c03a9507ae265ecf5b5356885a53393a2029d241394997265a1a25aefc6''))) =
   [[909271398, 895693667, 1647862881, 862270566, 842346550, 828717106, 962945637,
    1700869475, 926232883, 1664431161, 876163377, 895627617, 1667445298, 892941104,
    1631137841, 892626017],
    [845494116, 845361203, 1631139120, 929129778, 909469027, 1714774581, 859125304,
    943022389, 858994995, 1630679090, 962867764, 825440564, 960050994, 909467953,
    1630680417, 1701208886],
    [2147483648, 0, 0, 0, 0, 0, 0, 0, 0, 0, 0, 0, 0, 0, 0, 1024]]"
  by (simp add: block_eval del: length_Cons)

lemma compress_path_c_2:
  "compress [71218920, 1968077108, 4152705834, 1689649494, 1871018961, 3301697166, 165614155,
     3267286473]
     [845494116, 845361203, 1631139120, 929129778, 909469027, 1714774581, 859125304,
     943022389, 858994995, 1630679090, 962867764, 825440564, 960050994, 909467953,
     1630680417, 1701208886] =
   [2089985890, 2837560807, 1288633479, 3378617675, 3829907628, 818938699, 174704916,
   3985423818]"
  by (simp add: sha_eval del: and_numerals(3,4,6,7) xor_numerals(3,4,6,7))

lemma compress_path_c_3:
  "compress [2089985890, 2837560807, 1288633479, 3378617675, 3829907628, 818938699, 174704916,
     3985423818]
     [2147483648, 0, 0, 0, 0, 0, 0, 0, 0, 0, 0, 0, 0, 0, 0, 1024] =
   [3609051951, 2731382206, 1622355387, 1046675615, 2818982919, 3994678359, 3374975397,
   4286847626]"
  by (simp add: sha_eval del: and_numerals(3,4,6,7) xor_numerals(3,4,6,7))

lemma digest_path_c:
  "hexdigest [3609051951, 2731382206, 1622355387, 1046675615, 2818982919, 3994678359, 3374975397,
   4286847626] =
   ''d71dc32fa2cd95be60b32dbb3e63009fa8064407ee19f457c92a09a5ff841a8a''"
  by (simp add: hexdigest_def hex32_def hexdigit_def)

lemma hash_str_path_c:
  "hash_str ''62af5c3cb8da3e4f25061e829ebeea5c7513c54949115b1acc225930a90154da2e7d2c03a9507ae265ecf5b5356885a53393a2029d241394997265a1a25aefc6'' =
   ''d71dc32fa2cd95be60b32dbb3e63009fa8064407ee19f457c92a09a5ff841a8a''"
  by (simp only: hash_str_def sha256_def blocks_path_c foldl_Cons foldl_Nil H256_def
      compress_root_abc_1 compress_path_c_2 compress_path_c_3 digest_path_c)

section \<open>The claims\<close>

text \<open>
  C1, as the code has it: the round trip fails for a leaf whose path meets an unpaired
  node. In the tree of \<open>'a'\<close>, \<open>'b'\<close>, \<open>'c'\<close> the builder combines leaf 2 with itself, but
  \<open>get_proof(2)\<close> adds no step for that level, so \<open>verify_proof\<close> hashes the leaf with the
  left node directly and arrives at another digest than the root: it returns \<open>False\<close>.
  For leaf 1, whose path meets paired nodes only, the proof is accepted.
\<close>

theorem proof_of_unpaired_leaf_rejected:
  "MerkleTree [Text ''a'', Text ''b'', Text ''c''] = Inr abc_tree
   \<and> get_root abc_tree =
        Inr (Some ''0bdf27bf7ec894ca7cadfe491ec1a3ece840f117989e8c5e9bd7086467bf6c38'')
   \<and> get_proof abc_tree 2 =
        Inr [\<lparr>hash = ''62af5c3cb8da3e4f25061e829ebeea5c7513c54949115b1acc225930a90154da'',
              position = ''left''\<rparr>]
   \<and> verify_proof (Text ''c'')
        [\<lparr>hash = ''62af5c3cb8da3e4f25061e829ebeea5c7513c54949115b1acc225930a90154da'',
          position = ''left''\<rparr>]
        (Some ''0bdf27bf7ec894ca7cadfe491ec1a3ece840f117989e8c5e9bd7086467bf6c38'')
      = Inr False
   \<and> get_proof abc_tree 1 =
        Inr [\<lparr>hash = ''ca978112ca1bbdcafac231b39a23dc4da786eff8147c4e72b9807785afee48bb'',
              position = ''left''\<rparr>,
             \<lparr>hash = ''d50c873877f38fcbc56dbe836b9d979912efcb587ed8eea919372d403b5c2bd4'',
              position = ''right''\<rparr>]
   \<and> verify_proof (Text ''b'')
        [\<lparr>hash = ''ca978112ca1bbdcafac231b39a23dc4da786eff8147c4e72b9807785afee48bb'',
          position = ''left''\<rparr>,
         \<lparr>hash = ''d50c873877f38fcbc56dbe836b9d979912efcb587ed8eea919372d403b5c2bd4'',
          position = ''right''\<rparr>]
        (Some ''0bdf27bf7ec894ca7cadfe491ec1a3ece840f117989e8c5e9bd7086467bf6c38'')
      = Inr True"
  using MerkleTree_abc
  by (simp add: abc_tree_def get_root_def get_proof_def verify_proof_def py_get_def
      hash_str_leaf_a hash_str_leaf_b hash_str_leaf_c hash_str_node_ab hash_str_node_cc
      hash_str_root_abc hash_str_path_c)

text \<open>
  C2, as the code has it: \<open>_hash_data\<close> on a dictionary does not return a digest. It passes
  the text that \<open>json.dumps\<close> returns to \<open>hashlib.sha256\<close> without encoding it, and the
  call raises \<open>TypeError\<close>, whatever the order of the keys.
\<close>

theorem hash_data_dict_raises:
  "hash_data (Dict [(''id'', JInt 1), (''name'', JStr ''Alice'')]) = Inl TypeError
   \<and> hash_data (Dict [(''name'', JStr ''Alice''), (''id'', JInt 1)]) = Inl TypeError"
  by simp

text \<open>
  C3, as the code has it: the tree of an empty record list is \<open>[[]]\<close>, which is not an
  empty list, so \<open>get_root\<close> reads \<open>self.tree[-1][0]\<close> and raises \<open>IndexError\<close> instead of
  returning \<open>None\<close>.
\<close>

theorem get_root_empty_raises:
  "MerkleTree [] = Inr \<lparr>leaves = [], tree = [[]]\<rparr>
   \<and> get_root \<lparr>leaves = [], tree = [[]]\<rparr> = Inl IndexError"
  by (simp add: MerkleTree_def build_tree_def build_loop.simps get_root_def py_get_def)

text \<open>
  C4 as stated fails: in the tree of \<open>'a'\<close>, \<open>'b'\<close>, \<open>'c'\<close> the leaf 2 is the unpaired last
  leaf (its sibling index 3 is outside the leaf level), and \<open>find_sibling(2)\<close> does not
  return that leaf's own hash.
\<close>

theorem find_sibling_unpaired_counterexample:
  "MerkleTree [Text ''a'', Text ''b'', Text ''c''] = Inr abc_tree
   \<and> py_get (leaves abc_tree) 2 = Inr (hash_str ''c'')
   \<and> \<not> ((2::int) XOR 1) < int (length (leaves abc_tree))
   \<and> find_sibling abc_tree 2 \<noteq> Inr (Some (hash_str ''c''))"
  using MerkleTree_abc by (simp add: find_sibling_def abc_tree_def py_get_def)

text \<open>
  C4, amended: for every tree and every valid leaf index whose XOR-1 sibling index is
  outside the leaf level, \<open>find_sibling(index)\<close> returns \<open>None\<close>; for every index outside
  \<open>[0, leafCount)\<close> it raises \<open>IndexError\<close>.
\<close>

theorem find_sibling_unpaired_none:
  "(0 \<le> index \<and> index < int (length (leaves t)) \<and> \<not> (index XOR 1) < int (length (leaves t))
      \<longrightarrow> find_sibling t index = Inr None)
   \<and> (index < 0 \<or> index \<ge> int (length (leaves t)) \<longrightarrow> find_sibling t index = Inl IndexError)"
  by (auto simp: find_sibling_def Let_def)

theorem find_sibling_unpaired_none_witness:
  "(0::int) \<le> 2 \<and> 2 < int (length (leaves abc_tree))
   \<and> \<not> ((2::int) XOR 1) < int (length (leaves abc_tree))
   \<and> find_sibling abc_tree 2 = Inr None
   \<and> (3::int) \<ge> int (length (leaves abc_tree)) \<and> find_sibling abc_tree 3 = Inl IndexError"
  using find_sibling_unpaired_none [of 2 abc_tree] find_sibling_unpaired_none [of 3 abc_tree]
  by (simp add: abc_tree_def)

text \<open>
  C5: for every input record list, immediately after construction of the tree,
  \<open>check_integrity()\<close> returns true. Construction completes exactly when every record can
  be hashed; whenever it does, the check returns \<open>True\<close>.
\<close>

theorem check_integrity_after_construction:
  "MerkleTree data_list = Inr t \<Longrightarrow> check_integrity t = Inr True"
proof -
  assume "MerkleTree data_list = Inr t"
  then have "build_tree (leaves t) = Inr (tree t)" by (simp add: MerkleTree_Inr)
  then have "linked (tree t)" by (rule build_tree_inv)
  then show ?thesis
    using check_down_linked [of "tree t" "length (tree t) - 2"]
    by (auto simp: check_integrity_def)
qed

theorem check_integrity_after_construction_witness:
  "MerkleTree [Text ''a'', Text ''b'', Text ''c''] = Inr abc_tree
   \<and> check_integrity abc_tree = Inr True"
  using check_integrity_after_construction [OF MerkleTree_abc] MerkleTree_abc by simp

text \<open>
  C6: \<open>get_proof(index)\<close> raises \<open>IndexError\<close> if and only if \<open>index < 0\<close> or
  \<open>index >= leafCount\<close>; for every index in \<open>[0, leafCount)\<close> it returns a proof without
  raising any error. This holds in every state of the object.
\<close>

theorem get_proof_out_of_range:
  "(get_proof t index = Inl IndexError \<longleftrightarrow> index < 0 \<or> index \<ge> int (length (leaves t)))
   \<and> (0 \<le> index \<and> index < int (length (leaves t)) \<longrightarrow> (\<exists>p. get_proof t index = Inr p))"
  using proof_loop_total [of index "butlast (tree t)"]
  by (auto simp: get_proof_def)

theorem get_proof_out_of_range_witness:
  "(0::int) \<le> 2 \<and> 2 < int (length (leaves abc_tree)) \<and> (\<exists>p. get_proof abc_tree 2 = Inr p)
   \<and> (get_proof abc_tree 3 = Inl IndexError
        \<longleftrightarrow> (3::int) < 0 \<or> 3 \<ge> int (length (leaves abc_tree)))
   \<and> get_proof abc_tree (- 1) = Inl IndexError"
  using get_proof_out_of_range [of abc_tree 2] get_proof_out_of_range [of abc_tree 3]
    get_proof_out_of_range [of abc_tree "- 1"]
  by (simp add: abc_tree_def)

text \<open>
  C7: for every tree built from a non-empty input and every pair of consecutive levels
  \<open>k\<close>, \<open>k+1\<close> in it, the size of level \<open>k+1\<close> equals the size of level \<open>k\<close> divided by
  two and rounded up, and the final level has exactly one element.
\<close>

theorem level_sizes:
  assumes "data_list \<noteq> []" and "MerkleTree data_list = Inr t"
  shows "(\<forall>k. Suc k < length (tree t) \<longrightarrow>
            int (length (tree t ! Suc k)) = \<lceil>real (length (tree t ! k)) / 2\<rceil>)
         \<and> tree t \<noteq> [] \<and> length (last (tree t)) = 1"
proof -
  from assms(2) have h: "hash_all data_list = Inr (leaves t)"
    and b: "build_tree (leaves t) = Inr (tree t)"
    by (simp_all add: MerkleTree_Inr)
  from hash_all_length [OF h] assms(1) have ne: "leaves t \<noteq> []" by auto
  have l: "linked (tree t)" and n: "tree t \<noteq> []" and s: "length (last (tree t)) \<le> 1"
    and e: "last (tree t) \<noteq> []"
    using build_tree_inv [OF b] ne by simp_all
  have "int (length (tree t ! Suc k)) = \<lceil>real (length (tree t ! k)) / 2\<rceil>"
    if "Suc k < length (tree t)" for k
  proof -
    from l that have "next_level (tree t ! k) = Inr (tree t ! Suc k)" by (simp add: linked_def)
    from next_level_length [OF this] show ?thesis by (simp add: ceiling_half)
  qed
  moreover from s e have "length (last (tree t)) = 1" by (cases "last (tree t)") auto
  ultimately show ?thesis using n by blast
qed

theorem level_sizes_witness:
  "[Text ''a'', Text ''b'', Text ''c''] \<noteq> [] \<and> MerkleTree [Text ''a'', Text ''b'', Text ''c''] = Inr abc_tree
   \<and> length (tree abc_tree) = 3
   \<and> int (length (tree abc_tree ! Suc 0)) = \<lceil>real (length (tree abc_tree ! 0)) / 2\<rceil>
   \<and> int (length (tree abc_tree ! Suc 1)) = \<lceil>real (length (tree abc_tree ! 1)) / 2\<rceil>
   \<and> length (last (tree abc_tree)) = 1"
proof -
  have ne: "[Text ''a'', Text ''b'', Text ''c''] \<noteq> []" by simp
  have len: "length (tree abc_tree) = 3" by (simp add: abc_tree_def)
  note r = level_sizes [OF ne MerkleTree_abc]
  from r have a: "Suc k < length (tree abc_tree) \<Longrightarrow>
      int (length (tree abc_tree ! Suc k)) = \<lceil>real (length (tree abc_tree ! k)) / 2\<rceil>" for k
    by blast
  from a [of 0] a [of 1] r len ne MerkleTree_abc show ?thesis by simp
qed

text \<open>
  C8: for every 3-element input \<open>[a, b, c]\<close> whose records hash to \<open>ha\<close>, \<open>hb\<close>, \<open>hc\<close>,
  level 1 of the built tree contains exactly the two nodes \<open>hash(ha + hb)\<close> and
  \<open>hash(hc + hc)\<close> in that order, and the root equals the hash of the concatenation of
  those two nodes.
\<close>

theorem three_leaves:
  assumes "hash_data a = Inr ha" "hash_data b = Inr hb" "hash_data c = Inr hc"
  shows "\<exists>t n1 n2 r. MerkleTree [a, b, c] = Inr t
           \<and> hash_data (Text (ha @ hb)) = Inr n1 \<and> hash_data (Text (hc @ hc)) = Inr n2
           \<and> hash_data (Text (n1 @ n2)) = Inr r
           \<and> get_level_nodes t 1 = Inr [n1, n2] \<and> get_root t = Inr (Some r)"
  using assms
  by (simp add: MerkleTree_def build_tree_def build_loop.simps get_level_nodes_def get_root_def
      py_get_def)

theorem three_leaves_witness:
  "hash_data (Text ''a'') = Inr (hash_str ''a'') \<and> hash_data (Text ''b'') = Inr (hash_str ''b'')
   \<and> hash_data (Other ''3'') = Inr (hash_str ''3'')
   \<and> (\<exists>t n1 n2 r. MerkleTree [Text ''a'', Text ''b'', Other ''3''] = Inr t
           \<and> hash_data (Text (hash_str ''a'' @ hash_str ''b'')) = Inr n1
           \<and> hash_data (Text (hash_str ''3'' @ hash_str ''3'')) = Inr n2
           \<and> hash_data (Text (n1 @ n2)) = Inr r
           \<and> get_level_nodes t 1 = Inr [n1, n2] \<and> get_root t = Inr (Some r))"
  using three_leaves [OF hash_data_Text [of "''a''"] hash_data_Text [of "''b''"] hash_data_Other [of "''3''"]]
  by simp

text \<open>
  C9: for every tree as produced by construction, every leaf index in \<open>[0, leafCount)\<close>
  and every new record: after \<open>test_immutability(index, newRecord)\<close> returns,
  \<open>self.leaves\<close> and \<open>self.tree\<close> are equal to their values before the call. The call
  returns whenever the new record can be hashed.
\<close>

theorem test_immutability_restores:
  assumes "MerkleTree data_list = Inr t" and "0 \<le> index" and "index < int (length (leaves t))"
  shows "(\<forall>b t'. test_immutability t index new_value = Inr (b, t') \<longrightarrow>
            leaves t' = leaves t \<and> tree t' = tree t)
         \<and> (\<forall>h. hash_data new_value = Inr h \<longrightarrow> (\<exists>b. test_immutability t index new_value = Inr (b, t)))"
proof -
  let ?ls = "leaves t"
  from assms(1) have b: "build_tree ?ls = Inr (tree t)" by (simp add: MerkleTree_Inr)
  from assms(2,3) have ne: "?ls \<noteq> []" by auto
  from get_root_built [OF b ne] obtain r0 where r0: "get_root t = Inr (Some r0)" by auto
  have g: "py_get ?ls index = Inr (?ls ! nat index)"
    using assms(2,3) by (rule py_get_in_range)
  have tot: "\<exists>b. test_immutability t index new_value = Inr (b, t)" if h: "hash_data new_value = Inr h" for h
  proof -
    let ?ls1 = "?ls[nat index := h]"
    have s1: "py_set ?ls index h = Inr ?ls1" using assms(2,3) by (rule py_set_in_range)
    obtain tr1 where b1: "build_tree ?ls1 = Inr tr1" using build_tree_total by blast
    from ne have ne1: "?ls1 \<noteq> []" by simp
    from get_root_built [of ?ls1 "\<lparr>leaves = ?ls1, tree = tr1\<rparr>"] b1 ne1 obtain r1
      where r1: "get_root \<lparr>leaves = ?ls1, tree = tr1\<rparr> = Inr (Some r1)" by auto
    have s2: "py_set ?ls1 index (?ls ! nat index) = Inr ?ls"
      using assms(2,3) by (simp add: py_set_def)
    show ?thesis
      using r0 g h s1 b1 r1 s2 b by (simp add: test_immutability_def)
  qed
  have "leaves t' = leaves t \<and> tree t' = tree t"
    if r: "test_immutability t index new_value = Inr (b, t')" for b t'
  proof (cases "hash_data new_value")
    case (Inl e)
    with r r0 g show ?thesis by (simp add: test_immutability_def)
  next
    case (Inr h)
    from tot [OF Inr] r show ?thesis by auto
  qed
  with tot show ?thesis by blast
qed

theorem test_immutability_restores_witness:
  "MerkleTree [Text ''a'', Text ''b'', Text ''c''] = Inr abc_tree \<and> (0::int) \<le> 2
   \<and> 2 < int (length (leaves abc_tree))
   \<and> hash_data (Text ''z'') = Inr (hash_str ''z'')
   \<and> (\<exists>b. test_immutability abc_tree 2 (Text ''z'') = Inr (b, abc_tree))"
proof -
  have i: "(0::int) \<le> 2" by simp
  have j: "2 < int (length (leaves abc_tree))" by (simp add: abc_tree_def)
  from test_immutability_restores [OF MerkleTree_abc i j, of "Text ''z''"] MerkleTree_abc j
  show ?thesis by simp
qed

text \<open>
  C10: a proof step whose position is neither \<open>'left'\<close> nor \<open>'right'\<close> leaves the
  running hash unchanged: \<open>verify_proof\<close> gives the same result with the step as without
  it. Consequently \<open>verify_proof(record, proof, hash(record))\<close> returns true when the proof
  consists only of such steps.
\<close>

theorem verify_proof_skips_malformed:
  "(position st \<noteq> ''left'' \<and> position st \<noteq> ''right'' \<longrightarrow>
      verify_proof leaf (p1 @ st # p2) root_hash = verify_proof leaf (p1 @ p2) root_hash)
   \<and> (hash_data leaf = Inr h \<and> (\<forall>st \<in> set p. position st \<noteq> ''left'' \<and> position st \<noteq> ''right'')
        \<longrightarrow> verify_proof leaf p (Some h) = Inr True)"
  by (auto simp: verify_proof_def verify_loop_skip verify_loop_all_skipped split: sum.splits)

theorem verify_proof_skips_malformed_witness:
  "position \<lparr>hash = ''00'', position = ''up''\<rparr> \<noteq> ''left''
   \<and> position \<lparr>hash = ''00'', position = ''up''\<rparr> \<noteq> ''right''
   \<and> verify_proof (Text ''b'') ([\<lparr>hash = hash_str ''a'', position = ''left''\<rparr>] @ \<lparr>hash = ''00'', position = ''up''\<rparr> # [])
        (Some (hash_str (hash_str ''a'' @ hash_str ''b'')))
      = verify_proof (Text ''b'') ([\<lparr>hash = hash_str ''a'', position = ''left''\<rparr>] @ [])
          (Some (hash_str (hash_str ''a'' @ hash_str ''b'')))
   \<and> hash_data (Text ''b'') = Inr (hash_str ''b'')
   \<and> position \<lparr>hash = ''ff'', position = ''Left''\<rparr> \<noteq> ''left''
   \<and> position \<lparr>hash = ''ff'', position = ''Left''\<rparr> \<noteq> ''right''
   \<and> verify_proof (Text ''b'') [\<lparr>hash = ''00'', position = ''up''\<rparr>, \<lparr>hash = ''ff'', position = ''Left''\<rparr>]
        (Some (hash_str ''b'')) = Inr True"
  using verify_proof_skips_malformed [of "\<lparr>hash = ''00'', position = ''up''\<rparr>" "Text ''b''"
      "[\<lparr>hash = hash_str ''a'', position = ''left''\<rparr>]" "[]"
      "Some (hash_str (hash_str ''a'' @ hash_str ''b''))" "hash_str ''b''"
      "[\<lparr>hash = ''00'', position = ''up''\<rparr>, \<lparr>hash = ''ff'', position = ''Left''\<rparr>]"]
  by simp

end
